theory Spec2Isabelle
  imports Main
begin

section \<open>JavaScript values and objects\<close>

text \<open>
  The values that travel through the session code are JSON-like: strings, numbers,
  booleans, \<open>null\<close> and nested objects. An object is a finite map from property names
  to values; a property that is absent (or \<open>undefined\<close>) is \<open>None\<close>. Numbers are
  modelled as integers: every number the code computes is a whole number of seconds.
\<close>

datatype jsval =
    JNull
  | JBool bool
  | JNum int
  | JStr string
  | JObj "string \<Rightarrow> jsval option"

type_synonym obj = "string \<Rightarrow> jsval option"

text \<open>
  Object spread \<open>{ ...x }\<close>: the own properties of \<open>x\<close>, and nothing at all when \<open>x\<close>
  is \<open>undefined\<close>. Two spreads in one literal, \<open>{ ...a, ...b }\<close>, are
  \<open>spread a ++ spread b\<close>: the later one wins on a shared key.
\<close>

definition spread :: "('k \<Rightarrow> 'v option) option \<Rightarrow> 'k \<Rightarrow> 'v option" where
  "spread x = (case x of None \<Rightarrow> Map.empty | Some m \<Rightarrow> m)"

text \<open>
  A token payload goes through JSON, where a property is either there with a value or
  not there; \<open>obj\<close> is enough for it. The objects that the session callback spreads
  are live objects: an own property may hold \<open>undefined\<close>, and a spread copies it like
  any other own property. \<open>props\<close> keeps the two apart: \<open>None\<close> is no own property,
  \<open>Some None\<close> an own property whose value is \<open>undefined\<close>. Reading a property,
  \<open>x.k\<close>, gives \<open>undefined\<close> (\<open>None\<close>) in both cases.
\<close>

type_synonym props = "string \<Rightarrow> jsval option option"

definition get_prop :: "props \<Rightarrow> string \<Rightarrow> jsval option" where
  "get_prop x k = (case x k of None \<Rightarrow> None | Some v \<Rightarrow> v)"

section \<open>The token library\<close>

text \<open>
  \<open>jwt.encode\<close> and \<open>jwt.decode\<close> delegate to the \<open>jsonwebtoken\<close> package
  (\<open>import jsonwebtoken from 'jsonwebtoken'\<close>), called with a payload object, a
  secret string and no options. The package is not part of the repository; what
  follows is its behaviour under the default options, as far as the two calls use
  it. Signatures are modelled symbolically: a compact token is the payload together
  with the secret whose MAC it carries; every other string is not a token.
\<close>

datatype jwt =
    Jwt obj string
  | NotJwt string

datatype jwt_error =
    SignError
  | JsonWebTokenError
  | NotBeforeError
  | TokenExpiredError

text \<open>
  \<open>verify\<close> throws a \<open>JsonWebTokenError\<close> or one of its two subclasses; these
  are what a caller sees as an invalid token. \<open>SignError\<close> is the plain \<open>Error\<close> of
  a failed \<open>sign\<close>.
\<close>

definition InvalidToken :: "jwt_error set" where
  "InvalidToken = {JsonWebTokenError, NotBeforeError, TokenExpiredError}"

text \<open>The registered time claims must be numbers whenever they are present.\<close>

definition isNumber :: "jsval option \<Rightarrow> bool" where
  "isNumber v = (case v of None \<Rightarrow> True | Some (JNum n) \<Rightarrow> True | Some _ \<Rightarrow> False)"

text \<open>
  \<open>jsonwebtoken.sign(payload, secret)\<close> with the default options:
  \<^item> an empty secret is refused ("secretOrPrivateKey must have a value");
  \<^item> a payload whose \<open>iat\<close>, \<open>exp\<close> or \<open>nbf\<close> is present and not a number is refused
    ("... should be a number of seconds");
  \<^item> an object payload is stamped with the issued-at claim: \<open>iat\<close> becomes
    \<open>payload.iat || Math.floor(Date.now() / 1000)\<close>, so the caller's \<open>iat\<close> is kept
    unless it is absent or zero (falsy).
  The first argument is the clock, \<open>Date.now()\<close>, in milliseconds; \<open>encode\<close> and
  \<open>sign\<close> read it within the same call, and the model gives them the same reading.
\<close>

definition timestamp :: "int \<Rightarrow> obj \<Rightarrow> int" where
  "timestamp now_ms payload =
     (case payload ''iat'' of
        Some (JNum i) \<Rightarrow> if i = 0 then now_ms div 1000 else i
      | _ \<Rightarrow> now_ms div 1000)"

definition jsonwebtoken_sign :: "int \<Rightarrow> obj \<Rightarrow> string \<Rightarrow> jwt_error + jwt" where
  "jsonwebtoken_sign now_ms payload secret =
     (if secret = [] then Inl SignError
      else if \<not> isNumber (payload ''iat'') \<or> \<not> isNumber (payload ''exp'')
              \<or> \<not> isNumber (payload ''nbf'') then Inl SignError
      else Inr (Jwt (payload(''iat'' \<mapsto> JNum (timestamp now_ms payload))) secret))"

text \<open>
  \<open>jsonwebtoken.verify(token, secret)\<close> with the default options, in the library's
  order:
  \<^item> the token must be present ("jwt must be provided") and well formed
    ("jwt malformed");
  \<^item> the secret must be present and the signature the one it produces
    ("invalid signature");
  \<^item> a not-before claim must be a number ("invalid nbf value") that is not ahead of
    the clock: \<open>payload.nbf > clockTimestamp\<close> is "jwt not active";
  \<^item> an expiry claim must be a number ("invalid exp value") that the clock has not
    reached: \<open>clockTimestamp >= payload.exp\<close> is "jwt expired".
  The clock is \<open>Math.floor(Date.now() / 1000)\<close>. Nothing else is compared: with no
  options there is no issuer, audience or subject check. The result is the payload.
\<close>

definition check_nbf :: "int \<Rightarrow> obj \<Rightarrow> jwt_error option" where
  "check_nbf clock payload =
     (case payload ''nbf'' of
        None \<Rightarrow> None
      | Some (JNum n) \<Rightarrow> if n > clock then Some NotBeforeError else None
      | Some _ \<Rightarrow> Some JsonWebTokenError)"

definition check_exp :: "int \<Rightarrow> obj \<Rightarrow> jwt_error option" where
  "check_exp clock payload =
     (case payload ''exp'' of
        None \<Rightarrow> None
      | Some (JNum e) \<Rightarrow> if clock \<ge> e then Some TokenExpiredError else None
      | Some _ \<Rightarrow> Some JsonWebTokenError)"

definition jsonwebtoken_verify :: "int \<Rightarrow> jwt option \<Rightarrow> string \<Rightarrow> jwt_error + obj" where
  "jsonwebtoken_verify now_ms token secret =
     (case token of
        None \<Rightarrow> Inl JsonWebTokenError
      | Some (NotJwt s) \<Rightarrow> Inl JsonWebTokenError
      | Some (Jwt payload k) \<Rightarrow>
          if secret = [] \<or> k \<noteq> secret then Inl JsonWebTokenError
          else (case check_nbf (now_ms div 1000) payload of
                  Some e \<Rightarrow> Inl e
                | None \<Rightarrow>
                    (case check_exp (now_ms div 1000) payload of
                       Some e \<Rightarrow> Inl e
                     | None \<Rightarrow> Inr payload)))"

section \<open>The token codec: \<open>authOptions.jwt\<close>\<close>

text \<open>
  \<open>encode\<close> builds the object literal \<open>{ ...token, iss: "grafbase", exp: ... }\<close> and
  signs it. The literal is \<open>encode_payload\<close>; \<open>token\<close> may be \<open>undefined\<close>.
\<close>

definition encode_payload :: "int \<Rightarrow> obj option \<Rightarrow> obj" where
  "encode_payload now_ms token =
     (spread token)(''iss'' \<mapsto> JStr ''grafbase'',
                    ''exp'' \<mapsto> JNum (now_ms div 1000 + 60 * 60))"

definition encode :: "int \<Rightarrow> string \<Rightarrow> obj option \<Rightarrow> jwt_error + jwt" where
  "encode now_ms secret token = jsonwebtoken_sign now_ms (encode_payload now_ms token) secret"

definition decode :: "int \<Rightarrow> string \<Rightarrow> jwt option \<Rightarrow> jwt_error + obj" where
  "decode now_ms secret token = jsonwebtoken_verify now_ms token secret"

text \<open>
  Encoding at one time and decoding the result at another; a failed \<open>encode\<close> has no
  token to decode.
\<close>

definition decode_encode :: "int \<Rightarrow> int \<Rightarrow> string \<Rightarrow> obj option \<Rightarrow> jwt_error + obj" where
  "decode_encode t_enc t_dec secret token =
     (case encode t_enc secret token of
        Inl e \<Rightarrow> Inl e
      | Inr tok \<Rightarrow> decode t_dec secret (Some tok))"

section \<open>The user store\<close>

text \<open>
  The callbacks reach the store through \<open>getUser\<close> and \<open>createUser\<close>, imported from
  \<open>./actions\<close>. Both are asynchronous calls that either throw or resolve. \<open>getUser\<close>
  resolves to something read as \<open>{ user?: UserProfile }\<close>: nothing at all
  (\<open>Nullish\<close>), or an object whose \<open>user\<close> is a profile or missing. The callbacks
  take the two functions as parameters; \<open>'st\<close> is whatever state they act on.

  What a call throws is any value: an error object (here the two kinds the spec names
  for a store call, and the \<open>TypeError\<close> of the runtime), or \<open>null\<close>/\<open>undefined\<close>
  (\<open>ThrownNullish\<close>), off which no property can be read.
\<close>

datatype exn = StoreUnavailable | MalformedIdentity | TypeError | ThrownNullish

datatype reply = Nullish | Data "props option"

text \<open>\<open>data?.user\<close>\<close>

definition reply_user :: "reply \<Rightarrow> props option" where
  "reply_user data = (case data of Nullish \<Rightarrow> None | Data x \<Rightarrow> x)"

type_synonym 'st getUser_fn = "jsval option \<Rightarrow> 'st \<Rightarrow> (exn + reply) \<times> 'st"

type_synonym 'st createUser_fn =
  "jsval option \<Rightarrow> jsval option \<Rightarrow> jsval option \<Rightarrow> 'st \<Rightarrow> (exn + props) \<times> 'st"

section \<open>The callbacks: \<open>authOptions.callbacks\<close>\<close>

text \<open>
  The provider session: its \<open>user\<close> object, which the type allows to be missing, and
  every other top-level property (\<open>expires\<close>, ...).
\<close>

record provider_session =
  user :: "props option"
  other :: props

text \<open>
  \<open>session({ session })\<close>: \<open>session?.user?.email\<close>, here \<open>session_email\<close>, is handed
  to \<open>getUser\<close> as it is (the cast \<open>as string\<close> checks nothing). When the call
  resolves the result is \<open>{ ...session, user: { ...session.user, ...data?.user } }\<close>:
  every own property of the profile, also one that holds \<open>undefined\<close>, replaces the
  provider's. When the call throws, the \<open>catch\<close> logs the thrown value itself and
  returns \<open>session\<close>. Logging to the console is not modelled.
\<close>

definition session_email :: "provider_session \<Rightarrow> jsval option" where
  "session_email s = (case user s of None \<Rightarrow> None | Some u \<Rightarrow> get_prop u ''email'')"

definition session :: "'st getUser_fn \<Rightarrow> provider_session \<Rightarrow> 'st \<Rightarrow> provider_session \<times> 'st" where
  "session getUser s st =
     (let email = session_email s in
      case getUser email st of
        (Inl error, st1) \<Rightarrow> (s, st1)
      | (Inr data, st1) \<Rightarrow>
          (s\<lparr>user := Some (spread (user s) ++ spread (reply_user data))\<rparr>, st1))"

text \<open>
  The \<open>catch\<close> of \<open>signIn\<close>: it logs \<open>error.message\<close> and returns \<open>false\<close>. Reading
  \<open>message\<close> off a thrown \<open>null\<close> or \<open>undefined\<close> throws a \<open>TypeError\<close> inside the
  \<open>catch\<close>, which nothing catches: the callback then rejects (\<open>Inl\<close>).
\<close>

definition signIn_catch :: "exn \<Rightarrow> exn + bool" where
  "signIn_catch error = (if error = ThrownNullish then Inl TypeError else Inr False)"

text \<open>
  \<open>signIn({ user })\<close>, with \<open>u\<close> the user object; the callback only reads its
  properties, so \<open>obj\<close> is enough for it. Reading \<open>userExists.user\<close> off a nullish
  reply throws a \<open>TypeError\<close> inside the \<open>try\<close>, so that case ends in the \<open>catch\<close>
  like a failed call. A profile object is truthy; a missing or \<open>null\<close> one is not.
\<close>

definition signIn :: "'st getUser_fn \<Rightarrow> 'st createUser_fn \<Rightarrow> obj \<Rightarrow> 'st \<Rightarrow> (exn + bool) \<times> 'st" where
  "signIn getUser createUser u st =
     (case getUser (u ''email'') st of
        (Inl error, st1) \<Rightarrow> (signIn_catch error, st1)
      | (Inr Nullish, st1) \<Rightarrow> (signIn_catch TypeError, st1)
      | (Inr (Data (Some profile)), st1) \<Rightarrow> (Inr True, st1)
      | (Inr (Data None), st1) \<Rightarrow>
          (case createUser (u ''name'') (u ''email'') (u ''image'') st1 of
             (Inl error, st2) \<Rightarrow> (signIn_catch error, st2)
           | (Inr created, st2) \<Rightarrow> (Inr True, st2)))"

section \<open>A reference store\<close>

text \<open>
  Modelled from the spec: the user store behind \<open>./actions\<close>, which is not among the
  sources. It holds at most one profile per email; its backend may be out of reach
  for lookups or for creates; it keeps the list of the requests it has received.
\<close>

datatype request =
    Lookup "jsval option"
  | Create "jsval option" "jsval option" "jsval option"

record store =
  profiles :: "string \<Rightarrow> props option"
  lookup_up :: bool
  create_up :: bool
  requests :: "request list"

text \<open>
  Modelled from the spec: the InternalProfile that a create makes, which \<open>./actions\<close>
  (not among the sources) would build. It has the identity's display name, email and
  avatar reference; an attribute the identity lacks is left out.
\<close>

definition new_profile :: "jsval option \<Rightarrow> string \<Rightarrow> jsval option \<Rightarrow> props" where
  "new_profile displayName email avatarRef =
     (Map.empty(''displayName'' := map_option Some displayName,
                ''avatarRef'' := map_option Some avatarRef))(''email'' \<mapsto> Some (JStr email))"

text \<open>
  Modelled from the spec: \<open>getUser\<close> of \<open>./actions\<close>, which is not among the sources.
  The spec's store has \<open>lookupByEmail(email) -> Option<InternalProfile>\<close>, keyed by
  the email string; the call fails with \<open>StoreUnavailable\<close> when the backend cannot be
  reached, and a lookup without the required email is a \<open>MalformedIdentity\<close> error of
  the lookup step. The store records every request it receives.
\<close>

definition store_lookupByEmail :: "store getUser_fn" where
  "store_lookupByEmail email st =
     (let st1 = st\<lparr>requests := requests st @ [Lookup email]\<rparr> in
      if \<not> lookup_up st then (Inl StoreUnavailable, st1)
      else (case email of
              Some (JStr a) \<Rightarrow> (Inr (Data (profiles st a)), st1)
            | _ \<Rightarrow> (Inl MalformedIdentity, st1)))"

text \<open>
  Modelled from the spec: \<open>createUser\<close> of \<open>./actions\<close>, which is not among the
  sources. The spec's store has
  \<open>createUser(displayName, email, avatarRef) -> InternalProfile\<close> and enforces one
  profile per email (a second create for an email keeps the stored profile). A create
  that fails leaves no profile behind.
\<close>

definition store_createUser :: "store createUser_fn" where
  "store_createUser displayName email avatarRef st =
     (let st1 = st\<lparr>requests := requests st @ [Create displayName email avatarRef]\<rparr> in
      if \<not> create_up st then (Inl StoreUnavailable, st1)
      else (case email of
              Some (JStr a) \<Rightarrow>
                (case profiles st a of
                   Some p \<Rightarrow> (Inr p, st1)
                 | None \<Rightarrow>
                     (Inr (new_profile displayName a avatarRef),
                      st1\<lparr>profiles := (profiles st)(a \<mapsto> new_profile displayName a avatarRef)\<rparr>))
            | _ \<Rightarrow> (Inl MalformedIdentity, st1)))"

section \<open>Two other stores\<close>


definition createUser_ok :: "unit createUser_fn" where
  "createUser_ok displayName email avatarRef st = (Inr Map.empty, st)"

text \<open>A lookup that rejects with \<open>undefined\<close>.\<close>

definition getUser_rejects_undefined :: "unit getUser_fn" where
  "getUser_rejects_undefined email st = (Inl ThrownNullish, st)"

section \<open>Properties of the token codec\<close>

lemma timestamp_encode_payload:
  "timestamp t (encode_payload t' token) = timestamp t (spread token)"
  by (simp add: timestamp_def encode_payload_def)

lemma isNumber_cases: "isNumber v \<longleftrightarrow> v = None \<or> (\<exists>n. v = Some (JNum n))"
  by (auto simp: isNumber_def split: option.splits jsval.splits)

lemma encode_eq:
  "encode now_ms secret token =
     (if secret = [] \<or> \<not> isNumber (spread token ''iat'') \<or> \<not> isNumber (spread token ''nbf'')
      then Inl SignError
      else Inr (Jwt ((encode_payload now_ms token)(''iat'' \<mapsto> JNum (timestamp now_ms (spread token)))) secret))"
  by (simp add: encode_def jsonwebtoken_sign_def timestamp_encode_payload)
     (simp add: encode_payload_def isNumber_def)

lemma decode_Jwt:
  "decode now_ms secret (Some (Jwt p k)) =
     (if secret = [] \<or> k \<noteq> secret then Inl JsonWebTokenError
      else case check_nbf (now_ms div 1000) p of
             Some e \<Rightarrow> Inl e
           | None \<Rightarrow> (case check_exp (now_ms div 1000) p of Some e \<Rightarrow> Inl e | None \<Rightarrow> Inr p))"
  by (simp add: decode_def jsonwebtoken_verify_def)

lemma check_nbf_None:
  "check_nbf clock p = None \<longleftrightarrow> p ''nbf'' = None \<or> (\<exists>n. p ''nbf'' = Some (JNum n) \<and> n \<le> clock)"
  by (auto simp: check_nbf_def split: option.splits jsval.splits)

lemma check_exp_None:
  "check_exp clock p = None \<longleftrightarrow> p ''exp'' = None \<or> (\<exists>e. p ''exp'' = Some (JNum e) \<and> clock < e)"
  by (auto simp: check_exp_def split: option.splits jsval.splits)

lemma check_nbf_Some: "check_nbf clock p = Some e \<Longrightarrow> e \<in> InvalidToken"
  by (auto simp: check_nbf_def InvalidToken_def split: option.splits jsval.splits if_splits)

lemma check_exp_Some: "check_exp clock p = Some e \<Longrightarrow> e \<in> InvalidToken"
  by (auto simp: check_exp_def InvalidToken_def split: option.splits jsval.splits if_splits)

lemma decode_error_InvalidToken: "decode now_ms secret token = Inl e \<Longrightarrow> e \<in> InvalidToken"
  by (cases token; cases "the token")
     (auto simp: decode_Jwt decode_def jsonwebtoken_verify_def InvalidToken_def
           split: if_splits option.splits dest: check_nbf_Some check_exp_Some)

lemma decode_fails_iff_not_Inr:
  "(\<exists>e \<in> InvalidToken. decode t secret tk = Inl e) \<longleftrightarrow> \<not> (\<exists>x. decode t secret tk = Inr x)"
  by (cases "decode t secret tk") (auto dest: decode_error_InvalidToken)

lemma decode_Jwt_ok:
  "(\<exists>x. decode now_ms secret (Some (Jwt p k)) = Inr x) \<longleftrightarrow>
     secret \<noteq> [] \<and> k = secret \<and> check_nbf (now_ms div 1000) p = None
       \<and> check_exp (now_ms div 1000) p = None"
  by (auto simp: decode_Jwt split: option.splits)

lemma absent_or_number:
  "(v = None \<or> (\<exists>n. v = Some (JNum n) \<and> P n)) \<longleftrightarrow>
     isNumber v \<and> \<not> (\<exists>n. v = Some (JNum n) \<and> \<not> P n)"
  by (auto simp: isNumber_cases)

subsection \<open>What gets signed\<close>

text \<open>
  Claim C2. Whatever claims \<open>encode\<close> is given, also ones that bring an issuer or an
  expiry of their own, the object handed to the signing function has
  \<open>iss = "grafbase"\<close> and \<open>exp\<close> equal to the encode-time clock in seconds plus 3600,
  and so has the payload of every token that \<open>encode\<close> returns.
\<close>

theorem encode_overrides_issuer_and_expiry:
  "encode_payload now_ms token ''iss'' = Some (JStr ''grafbase'')
   \<and> encode_payload now_ms token ''exp'' = Some (JNum (now_ms div 1000 + 3600))
   \<and> encode now_ms secret token = jsonwebtoken_sign now_ms (encode_payload now_ms token) secret
   \<and> (\<forall>tok. encode now_ms secret token = Inr tok \<longrightarrow>
        (\<exists>p. tok = Jwt p secret \<and> p ''iss'' = Some (JStr ''grafbase'')
             \<and> p ''exp'' = Some (JNum (now_ms div 1000 + 3600))))"
proof (intro conjI allI impI)
  show "encode_payload now_ms token ''iss'' = Some (JStr ''grafbase'')"
    by (simp add: encode_payload_def)
  show "encode_payload now_ms token ''exp'' = Some (JNum (now_ms div 1000 + 3600))"
    by (simp add: encode_payload_def)
  show "encode now_ms secret token = jsonwebtoken_sign now_ms (encode_payload now_ms token) secret"
    by (simp add: encode_def)
next
  fix tok
  assume "encode now_ms secret token = Inr tok"
  then show "\<exists>p. tok = Jwt p secret \<and> p ''iss'' = Some (JStr ''grafbase'')
             \<and> p ''exp'' = Some (JNum (now_ms div 1000 + 3600))"
    by (auto simp: encode_eq encode_payload_def split: if_splits)
qed

theorem encode_overrides_issuer_and_expiry_witness:
  "\<exists>p. encode 1000000 ''k'' (Some (Map.empty(''iss'' \<mapsto> JStr ''upstream'', ''exp'' \<mapsto> JNum 99999999)))
         = Inr (Jwt p ''k'')
       \<and> p ''iss'' = Some (JStr ''grafbase'') \<and> p ''exp'' = Some (JNum 4600)"
proof -
  let ?c = "Some (Map.empty(''iss'' \<mapsto> JStr ''upstream'', ''exp'' \<mapsto> JNum 99999999))"
  have "\<exists>tok. encode 1000000 ''k'' ?c = Inr tok"
    by (simp add: encode_eq spread_def isNumber_def)
  then obtain tok where e: "encode 1000000 ''k'' ?c = Inr tok" ..
  from encode_overrides_issuer_and_expiry [of 1000000 ?c "''k''"] e
  have "\<exists>p. tok = Jwt p ''k'' \<and> p ''iss'' = Some (JStr ''grafbase'')
          \<and> p ''exp'' = Some (JNum (1000000 div 1000 + 3600))"
    by blast
  with e show ?thesis by auto
qed

subsection \<open>Round trip\<close>

text \<open>
  The round trip as the spec has it, with only the issuer and the expiry replaced,
  fails: the signing library stamps the payload with \<open>iat\<close>. Claims with just an email,
  encoded and decoded at second 5, come back with \<open>iat = 5\<close>.
\<close>

theorem roundtrip_adds_issued_at_counterexample:
  "decode_encode 5000 5000 ''k'' (Some (Map.empty(''email'' \<mapsto> JStr ''a@x.com'')))
     \<noteq> Inr (Map.empty(''email'' \<mapsto> JStr ''a@x.com'', ''iss'' \<mapsto> JStr ''grafbase'',
                        ''exp'' \<mapsto> JNum 3605))"
proof
  let ?c = "Map.empty(''email'' \<mapsto> JStr ''a@x.com'')"
  assume a: "decode_encode 5000 5000 ''k'' (Some ?c)
     = Inr (?c(''iss'' \<mapsto> JStr ''grafbase'', ''exp'' \<mapsto> JNum 3605))"
  have "decode_encode 5000 5000 ''k'' (Some ?c)
     = Inr (?c(''iss'' \<mapsto> JStr ''grafbase'', ''exp'' \<mapsto> JNum 3605, ''iat'' \<mapsto> JNum 5))"
    by (simp add: decode_encode_def encode_eq decode_Jwt spread_def isNumber_def
        encode_payload_def check_nbf_def check_exp_def timestamp_def)
  with a have "(?c(''iss'' \<mapsto> JStr ''grafbase'', ''exp'' \<mapsto> JNum 3605)) ''iat''
     = (?c(''iss'' \<mapsto> JStr ''grafbase'', ''exp'' \<mapsto> JNum 3605, ''iat'' \<mapsto> JNum 5)) ''iat''"
    by simp
  then show False by simp
qed

text \<open>
  Claim C1, amended. For a non-empty secret and claims \<open>c\<close> that \<open>sign\<close> and \<open>verify\<close>
  accept (\<open>iat\<close> a number when present, \<open>nbf\<close> a number not ahead of the decode-time
  clock when present), decoding before the expiry returns \<open>c\<close> with three claims set
  by the codec: \<open>iss = "grafbase"\<close>, \<open>exp\<close> = encode-time seconds + 3600, and \<open>iat\<close> =
  the issued-at stamp (the caller's non-zero \<open>iat\<close>, else the encode-time seconds).
  Every other claim is the caller's.
\<close>

theorem decode_encode_roundtrip:
  assumes "secret \<noteq> []"
    and "isNumber (spread c ''iat'')"
    and "spread c ''nbf'' = None \<or> (\<exists>n. spread c ''nbf'' = Some (JNum n) \<and> n \<le> t_dec div 1000)"
    and "t_dec div 1000 < t_enc div 1000 + 3600"
  shows "decode_encode t_enc t_dec secret c =
           Inr ((spread c)(''iss'' \<mapsto> JStr ''grafbase'',
                           ''exp'' \<mapsto> JNum (t_enc div 1000 + 3600),
                           ''iat'' \<mapsto> JNum (timestamp t_enc (spread c))))"
proof -
  let ?p = "(encode_payload t_enc c)(''iat'' \<mapsto> JNum (timestamp t_enc (spread c)))"
  from assms(3) have num: "isNumber (spread c ''nbf'')"
    by (auto simp: isNumber_def)
  with assms(1,2) have enc: "encode t_enc secret c = Inr (Jwt ?p secret)"
    by (simp add: encode_eq)
  have nbf: "check_nbf (t_dec div 1000) ?p = None"
    using assms(3) by (simp add: check_nbf_None encode_payload_def)
  have exp: "check_exp (t_dec div 1000) ?p = None"
    using assms(4) by (simp add: check_exp_None encode_payload_def)
  show ?thesis
    using assms(1) by (simp add: decode_encode_def enc decode_Jwt nbf exp) (simp add: encode_payload_def)
qed

theorem decode_encode_roundtrip_witness:
  "decode_encode 5000 3604000 ''k'' (Some (Map.empty(''email'' \<mapsto> JStr ''a@x.com'', ''exp'' \<mapsto> JNum 7)))
     = Inr (Map.empty(''email'' \<mapsto> JStr ''a@x.com'', ''iss'' \<mapsto> JStr ''grafbase'',
                        ''exp'' \<mapsto> JNum 3605, ''iat'' \<mapsto> JNum 5))"
proof -
  let ?c = "Some (Map.empty(''email'' \<mapsto> JStr ''a@x.com'', ''exp'' \<mapsto> JNum 7))"
  have h1: "''k'' \<noteq> []" by simp
  have h2: "isNumber (spread ?c ''iat'')" by (simp add: spread_def isNumber_def)
  have h3: "spread ?c ''nbf'' = None \<or> (\<exists>n. spread ?c ''nbf'' = Some (JNum n) \<and> n \<le> 3604000 div 1000)"
    by (simp add: spread_def)
  have h4: "(3604000::int) div 1000 < 5000 div 1000 + 3600" by simp
  have "decode_encode 5000 3604000 ''k'' ?c =
           Inr ((spread ?c)(''iss'' \<mapsto> JStr ''grafbase'',
                           ''exp'' \<mapsto> JNum (5000 div 1000 + 3600),
                           ''iat'' \<mapsto> JNum (timestamp 5000 (spread ?c))))"
    by (rule decode_encode_roundtrip [OF h1 h2 h3 h4])
  then show ?thesis by (simp add: spread_def timestamp_def)
qed

subsection \<open>When decoding fails\<close>

text \<open>
  A token that \<open>encode\<close> made, decoded with the same secret at the same instant, is
  well formed, rightly signed and not expired, and still fails: its not-before claim
  lies ahead of the clock.
\<close>

theorem decode_fails_not_before_counterexample:
  "encode 1000 ''k'' (Some (Map.empty(''nbf'' \<mapsto> JNum 5000)))
     = Inr (Jwt (Map.empty(''nbf'' \<mapsto> JNum 5000, ''iss'' \<mapsto> JStr ''grafbase'',
                            ''exp'' \<mapsto> JNum 3601, ''iat'' \<mapsto> JNum 1)) ''k'')
   \<and> decode 1000 ''k''
        (Some (Jwt (Map.empty(''nbf'' \<mapsto> JNum 5000, ''iss'' \<mapsto> JStr ''grafbase'',
                               ''exp'' \<mapsto> JNum 3601, ''iat'' \<mapsto> JNum 1)) ''k''))
     = Inl NotBeforeError"
  by (simp add: encode_eq decode_Jwt spread_def isNumber_def encode_payload_def
      check_nbf_def timestamp_def)

text \<open>
  Claim C3, amended. \<open>decode\<close> fails with an invalid-token error exactly when the token
  is missing or not a token, its signature is not the one the given secret produces
  (or the secret is empty), its not-before or expiry claim is not a number, its
  not-before claim is later than the decode-time clock, or the decode-time clock has
  reached its expiry (clock \<open>\<ge>\<close> \<open>exp\<close>, in whole seconds). In particular a token encoded
  at time \<open>T\<close> fails to decode 3601 seconds later.
\<close>

theorem decode_fails_iff:
  "((\<exists>e \<in> InvalidToken. decode now_ms secret token = Inl e) \<longleftrightarrow>
      token = None \<or> (\<exists>s. token = Some (NotJwt s))
      \<or> (\<exists>p k. token = Some (Jwt p k)
            \<and> (k \<noteq> secret \<or> secret = []
                \<or> \<not> isNumber (p ''nbf'') \<or> \<not> isNumber (p ''exp'')
                \<or> (\<exists>n. p ''nbf'' = Some (JNum n) \<and> now_ms div 1000 < n)
                \<or> (\<exists>x. p ''exp'' = Some (JNum x) \<and> x \<le> now_ms div 1000))))
   \<and> (\<forall>tok. encode now_ms secret c = Inr tok \<longrightarrow>
         (\<exists>e \<in> InvalidToken. decode (now_ms + 3601 * 1000) secret (Some tok) = Inl e))"
proof
  show "(\<exists>e \<in> InvalidToken. decode now_ms secret token = Inl e) \<longleftrightarrow>
      token = None \<or> (\<exists>s. token = Some (NotJwt s))
      \<or> (\<exists>p k. token = Some (Jwt p k)
            \<and> (k \<noteq> secret \<or> secret = []
                \<or> \<not> isNumber (p ''nbf'') \<or> \<not> isNumber (p ''exp'')
                \<or> (\<exists>n. p ''nbf'' = Some (JNum n) \<and> now_ms div 1000 < n)
                \<or> (\<exists>x. p ''exp'' = Some (JNum x) \<and> x \<le> now_ms div 1000)))"
  proof (cases token)
    case None
    then show ?thesis
      by (simp add: decode_fails_iff_not_Inr) (simp add: decode_def jsonwebtoken_verify_def)
  next
    case (Some tk)
    show ?thesis
    proof (cases tk)
      case (NotJwt s)
      with Some show ?thesis
        by (simp add: decode_fails_iff_not_Inr) (simp add: decode_def jsonwebtoken_verify_def)
    next
      case (Jwt p k)
      with Some show ?thesis
        by (simp add: decode_fails_iff_not_Inr decode_Jwt_ok check_nbf_None check_exp_None
              absent_or_number)
           (auto simp: not_le)
    qed
  qed
  show "\<forall>tok. encode now_ms secret c = Inr tok \<longrightarrow>
         (\<exists>e \<in> InvalidToken. decode (now_ms + 3601 * 1000) secret (Some tok) = Inl e)"
  proof (intro allI impI)
    fix tok assume "encode now_ms secret c = Inr tok"
    then have tok: "tok = Jwt ((encode_payload now_ms c)(''iat'' \<mapsto> JNum (timestamp now_ms (spread c)))) secret"
      by (auto simp: encode_eq split: if_splits)
    have "check_exp ((now_ms + 3601 * 1000) div 1000)
            ((encode_payload now_ms c)(''iat'' \<mapsto> JNum (timestamp now_ms (spread c)))) \<noteq> None"
      by (simp add: check_exp_None encode_payload_def)
    then have "\<not> (\<exists>x. decode (now_ms + 3601 * 1000) secret (Some tok) = Inr x)"
      unfolding tok decode_Jwt_ok by blast
    then show "\<exists>e \<in> InvalidToken. decode (now_ms + 3601 * 1000) secret (Some tok) = Inl e"
      by (simp add: decode_fails_iff_not_Inr)
  qed
qed

theorem decode_fails_iff_witness:
  "\<exists>tok. encode 5000 ''secretK''
            (Some (Map.empty(''user'' \<mapsto> JObj (Map.empty(''email'' \<mapsto> JStr ''a@x.com''))))) = Inr tok
     \<and> (\<exists>e \<in> InvalidToken. decode (5000 + 3601 * 1000) ''secretK'' (Some tok) = Inl e)"
proof -
  let ?c = "Some (Map.empty(''user'' \<mapsto> JObj (Map.empty(''email'' \<mapsto> JStr ''a@x.com''))))"
  have "\<exists>tok. encode 5000 ''secretK'' ?c = Inr tok"
    by (simp add: encode_eq spread_def isNumber_def)
  then obtain tok where e: "encode 5000 ''secretK'' ?c = Inr tok" ..
  from decode_fails_iff [of 5000 "''secretK''" None ?c] e
  have "\<exists>e \<in> InvalidToken. decode (5000 + 3601 * 1000) ''secretK'' (Some tok) = Inl e"
    by blast
  with e show ?thesis by blast
qed

subsection \<open>No issuer check\<close>

text \<open>
  A well-formed token, signed with the given secret and not expired, that \<open>decode\<close>
  refuses all the same: it is not yet active.
\<close>

theorem decode_not_yet_active_counterexample:
  "decode 1000000 ''k''
     (Some (Jwt (Map.empty(''iss'' \<mapsto> JStr ''grafbase'', ''exp'' \<mapsto> JNum 5000, ''nbf'' \<mapsto> JNum 3000)) ''k''))
     = Inl NotBeforeError"
  by (simp add: decode_Jwt check_nbf_def)

text \<open>
  Claim C10, amended. \<open>decode\<close> never looks at the issuer: a token with any issuer
  claim, or none, signed with the given non-empty secret, is decoded to its payload
  whenever its expiry (if any) is a number the clock has not reached and its
  not-before claim (if any) is a number not ahead of the clock.
\<close>

theorem decode_no_issuer_check:
  assumes "secret \<noteq> []"
    and "p ''nbf'' = None \<or> (\<exists>n. p ''nbf'' = Some (JNum n) \<and> n \<le> now_ms div 1000)"
    and "p ''exp'' = None \<or> (\<exists>x. p ''exp'' = Some (JNum x) \<and> now_ms div 1000 < x)"
  shows "decode now_ms secret (Some (Jwt (p(''iss'' := issuer)) secret)) = Inr (p(''iss'' := issuer))"
  using assms by (simp add: decode_Jwt check_nbf_None [THEN iffD2] check_exp_None [THEN iffD2])

theorem decode_no_issuer_check_witness:
  "decode 1000000 ''k'' (Some (Jwt (Map.empty(''exp'' \<mapsto> JNum 5000, ''iss'' \<mapsto> JStr ''someone else'')) ''k''))
     = Inr (Map.empty(''exp'' \<mapsto> JNum 5000, ''iss'' \<mapsto> JStr ''someone else''))"
proof -
  let ?p = "Map.empty(''exp'' \<mapsto> JNum 5000)"
  have h1: "''k'' \<noteq> []" by simp
  have h2: "?p ''nbf'' = None \<or> (\<exists>n. ?p ''nbf'' = Some (JNum n) \<and> n \<le> 1000000 div 1000)" by simp
  have h3: "?p ''exp'' = None \<or> (\<exists>x. ?p ''exp'' = Some (JNum x) \<and> 1000000 div 1000 < x)" by simp
  have "decode 1000000 ''k'' (Some (Jwt (?p(''iss'' := Some (JStr ''someone else''))) ''k''))
          = Inr (?p(''iss'' := Some (JStr ''someone else'')))"
    using h1 h2 h3 by (rule decode_no_issuer_check)
  then show ?thesis by simp
qed

section \<open>Properties of the callbacks\<close>

lemma session_throw:
  "getUser (session_email s) st = (Inl e, st1) \<Longrightarrow> session getUser s st = (s, st1)"
  by (simp add: session_def)

lemma session_resolve:
  "getUser (session_email s) st = (Inr data, st1) \<Longrightarrow>
     session getUser s st = (s\<lparr>user := Some (spread (user s) ++ spread (reply_user data))\<rparr>, st1)"
  by (simp add: session_def)

lemma session_no_profile:
  "getUser (session_email s) st = (Inr data, st1) \<Longrightarrow> reply_user data = None \<Longrightarrow>
     user s \<noteq> None \<Longrightarrow> session getUser s st = (s, st1)"
  by (cases s) (auto simp: session_resolve spread_def)

lemma signIn_throw:
  "getUser (u ''email'') st = (Inl e, st1) \<Longrightarrow>
     signIn getUser createUser u st = (signIn_catch e, st1)"
  by (simp add: signIn_def)

lemma signIn_found:
  "getUser (u ''email'') st = (Inr (Data (Some p)), st1) \<Longrightarrow>
     signIn getUser createUser u st = (Inr True, st1)"
  by (simp add: signIn_def)

lemma signIn_create:
  "getUser (u ''email'') st = (Inr (Data None), st1) \<Longrightarrow>
     signIn getUser createUser u st =
       (case createUser (u ''name'') (u ''email'') (u ''image'') st1 of
          (Inl e, st2) \<Rightarrow> (signIn_catch e, st2)
        | (Inr created, st2) \<Rightarrow> (Inr True, st2))"
  by (simp add: signIn_def)

lemma signIn_catch_error: "e \<noteq> ThrownNullish \<Longrightarrow> signIn_catch e = Inr False"
  by (simp add: signIn_catch_def)

lemma lookup_string:
  "lookup_up st \<Longrightarrow>
     store_lookupByEmail (Some (JStr a)) st
       = (Inr (Data (profiles st a)), st\<lparr>requests := requests st @ [Lookup (Some (JStr a))]\<rparr>)"
  by (simp add: store_lookupByEmail_def)

lemma lookup_no_string:
  "\<forall>a. email \<noteq> Some (JStr a) \<Longrightarrow>
     \<exists>e. e \<noteq> ThrownNullish \<and>
       store_lookupByEmail email st = (Inl e, st\<lparr>requests := requests st @ [Lookup email]\<rparr>)"
  by (auto simp: store_lookupByEmail_def Let_def split: option.splits jsval.splits)

lemma create_throws:
  "store_createUser displayName email avatarRef st = (Inl e, st1) \<Longrightarrow> e \<noteq> ThrownNullish"
  by (auto simp: store_createUser_def Let_def split: if_splits option.splits jsval.splits)

subsection \<open>The session callback\<close>

text \<open>
  Claim C6. When the lookup for the session's email fails, the session callback
  returns the provider session it was given, unchanged, as an ordinary result. This
  holds when the call throws, and also when it resolves without a profile for a
  session that has a user: the rebuilt session then equals the one given.
\<close>

theorem session_lookup_failure_returns_session:
  "(\<forall>e st1. getUser (session_email s) st = (Inl e, st1) \<longrightarrow> session getUser s st = (s, st1))
   \<and> (\<forall>data st1. getUser (session_email s) st = (Inr data, st1) \<and> reply_user data = None
          \<and> user s \<noteq> None \<longrightarrow> session getUser s st = (s, st1))"
  by (auto simp: session_throw session_no_profile)

theorem session_lookup_failure_returns_session_witness:
  "fst (session store_lookupByEmail
     \<lparr>user = Some (Map.empty(''name'' \<mapsto> Some (JStr ''A''), ''email'' \<mapsto> Some (JStr ''a@x.com''))),
      other = Map.empty(''expires'' \<mapsto> Some (JStr ''2026-01-01''))\<rparr>
     \<lparr>profiles = Map.empty, lookup_up = False, create_up = True, requests = []\<rparr>)
   = \<lparr>user = Some (Map.empty(''name'' \<mapsto> Some (JStr ''A''), ''email'' \<mapsto> Some (JStr ''a@x.com''))),
      other = Map.empty(''expires'' \<mapsto> Some (JStr ''2026-01-01''))\<rparr>
   \<and> fst (session store_lookupByEmail
     \<lparr>user = Some (Map.empty(''name'' \<mapsto> Some (JStr ''A''), ''email'' \<mapsto> Some (JStr ''a@x.com''))),
      other = Map.empty(''expires'' \<mapsto> Some (JStr ''2026-01-01''))\<rparr>
     \<lparr>profiles = Map.empty, lookup_up = True, create_up = True, requests = []\<rparr>)
   = \<lparr>user = Some (Map.empty(''name'' \<mapsto> Some (JStr ''A''), ''email'' \<mapsto> Some (JStr ''a@x.com''))),
      other = Map.empty(''expires'' \<mapsto> Some (JStr ''2026-01-01''))\<rparr>"
proof
  let ?s = "\<lparr>user = Some (Map.empty(''name'' \<mapsto> Some (JStr ''A''), ''email'' \<mapsto> Some (JStr ''a@x.com''))),
      other = Map.empty(''expires'' \<mapsto> Some (JStr ''2026-01-01''))\<rparr>"
  let ?down = "\<lparr>profiles = Map.empty, lookup_up = False, create_up = True, requests = []\<rparr>"
  let ?up = "\<lparr>profiles = Map.empty, lookup_up = True, create_up = True, requests = []\<rparr>"
  have h: "store_lookupByEmail (session_email ?s) ?down
        = (Inl StoreUnavailable, ?down\<lparr>requests := [Lookup (Some (JStr ''a@x.com''))]\<rparr>)"
    by (simp add: store_lookupByEmail_def session_email_def get_prop_def)
  from session_lookup_failure_returns_session
         [where getUser = store_lookupByEmail and s = ?s and st = ?down] h
  have "session store_lookupByEmail ?s ?down
          = (?s, ?down\<lparr>requests := [Lookup (Some (JStr ''a@x.com''))]\<rparr>)"
    by blast
  then show "fst (session store_lookupByEmail ?s ?down) = ?s" by simp
  have g: "store_lookupByEmail (session_email ?s) ?up
        = (Inr (Data None), ?up\<lparr>requests := [Lookup (Some (JStr ''a@x.com''))]\<rparr>)
      \<and> reply_user (Data None) = None \<and> user ?s \<noteq> None"
    by (simp add: store_lookupByEmail_def session_email_def get_prop_def reply_user_def)
  from session_lookup_failure_returns_session
         [where getUser = store_lookupByEmail and s = ?s and st = ?up] g
  have "session store_lookupByEmail ?s ?up
          = (?s, ?up\<lparr>requests := [Lookup (Some (JStr ''a@x.com''))]\<rparr>)"
    by blast
  then show "fst (session store_lookupByEmail ?s ?up) = ?s" by simp
qed

text \<open>
  Claim C7. When the lookup succeeds with an internal profile, the result is the
  provider session with only \<open>user\<close> replaced; every other top-level field is the
  provider's. The new \<open>user\<close> has the own properties of the provider's user and of the
  profile; on every property the profile owns, also one that holds \<open>undefined\<close>, the
  value is the profile's, on any other property it is the provider's.
\<close>

theorem session_merges_profile_into_user:
  assumes "getUser (session_email s) st = (Inr (Data (Some profile)), st1)"
  shows "fst (session getUser s st) = s\<lparr>user := Some (spread (user s) ++ profile)\<rparr>
       \<and> other (fst (session getUser s st)) = other s
       \<and> dom (spread (user s) ++ profile) = dom (spread (user s)) \<union> dom profile
       \<and> (\<forall>k \<in> dom profile. (spread (user s) ++ profile) k = profile k)
       \<and> (\<forall>k. k \<notin> dom profile \<longrightarrow> (spread (user s) ++ profile) k = spread (user s) k)"
proof -
  from assms have "session getUser s st = (s\<lparr>user := Some (spread (user s) ++ profile)\<rparr>, st1)"
    by (simp add: session_resolve reply_user_def spread_def)
  then show ?thesis
    by (auto simp: map_add_def dom_def split: option.splits)
qed

theorem session_merges_profile_into_user_witness:
  "fst (session store_lookupByEmail
     \<lparr>user = Some (Map.empty(''name'' \<mapsto> Some (JStr ''A''), ''email'' \<mapsto> Some (JStr ''a@x.com''),
                              ''image'' \<mapsto> Some (JStr ''img1''))),
      other = Map.empty(''expires'' \<mapsto> Some (JStr ''2026-01-01''))\<rparr>
     \<lparr>profiles = Map.empty(''a@x.com'' \<mapsto>
          Map.empty(''name'' \<mapsto> Some (JStr ''Stored''), ''id'' \<mapsto> Some (JStr ''u1''),
                    ''image'' \<mapsto> None)),
      lookup_up = True, create_up = True, requests = []\<rparr>)
   = \<lparr>user = Some (Map.empty(''name'' \<mapsto> Some (JStr ''Stored''), ''email'' \<mapsto> Some (JStr ''a@x.com''),
                              ''image'' \<mapsto> None, ''id'' \<mapsto> Some (JStr ''u1''))),
      other = Map.empty(''expires'' \<mapsto> Some (JStr ''2026-01-01''))\<rparr>"
proof -
  let ?s = "\<lparr>user = Some (Map.empty(''name'' \<mapsto> Some (JStr ''A''), ''email'' \<mapsto> Some (JStr ''a@x.com''),
                              ''image'' \<mapsto> Some (JStr ''img1''))),
      other = Map.empty(''expires'' \<mapsto> Some (JStr ''2026-01-01''))\<rparr>"
  let ?p = "Map.empty(''name'' \<mapsto> Some (JStr ''Stored''), ''id'' \<mapsto> Some (JStr ''u1''),
                    ''image'' \<mapsto> None)"
  let ?st = "\<lparr>profiles = Map.empty(''a@x.com'' \<mapsto> ?p),
      lookup_up = True, create_up = True, requests = []\<rparr>"
  have h: "store_lookupByEmail (session_email ?s) ?st
        = (Inr (Data (Some ?p)), ?st\<lparr>requests := [Lookup (Some (JStr ''a@x.com''))]\<rparr>)"
    by (simp add: store_lookupByEmail_def session_email_def get_prop_def)
  have "fst (session store_lookupByEmail ?s ?st) = ?s\<lparr>user := Some (spread (user ?s) ++ ?p)\<rparr>"
    using session_merges_profile_into_user [of store_lookupByEmail ?s ?st ?p, OF h] by blast
  moreover have "spread (user ?s) ++ ?p
      = Map.empty(''name'' \<mapsto> Some (JStr ''Stored''), ''email'' \<mapsto> Some (JStr ''a@x.com''),
                  ''image'' \<mapsto> None, ''id'' \<mapsto> Some (JStr ''u1''))"
    by (rule ext) (simp add: spread_def map_add_def)
  ultimately show ?thesis by simp
qed

text \<open>
  A session whose user has no email still reaches the store: the request list of the
  store shows the lookup, made with the absent email.
\<close>

theorem session_without_email_counterexample:
  "requests (snd (session store_lookupByEmail
      \<lparr>user = Some (Map.empty(''name'' \<mapsto> Some (JStr ''A''))),
       other = Map.empty(''expires'' \<mapsto> Some (JStr ''2026-01-01''))\<rparr>
      \<lparr>profiles = Map.empty, lookup_up = True, create_up = True, requests = []\<rparr>))
   = [Lookup None]"
  by (simp add: session_def store_lookupByEmail_def session_email_def get_prop_def)

text \<open>
  Claim C9, amended. The session callback has no guard for a missing email: it always
  performs the lookup, with whatever \<open>session?.user?.email\<close> is, and the state it
  leaves is the one that call leaves. For a session without an email the lookup of the
  store fails, so the provider session is returned unmodified and nothing is merged;
  the store has received exactly that one lookup.
\<close>

theorem session_always_looks_up:
  "snd (session getUser s st) = snd (getUser (session_email s) st)
   \<and> ((\<forall>a. session_email t \<noteq> Some (JStr a)) \<longrightarrow>
        session store_lookupByEmail t r
          = (t, r\<lparr>requests := requests r @ [Lookup (session_email t)]\<rparr>))"
proof
  show "snd (session getUser s st) = snd (getUser (session_email s) st)"
    by (simp add: session_def split: prod.splits sum.splits)
  show "(\<forall>a. session_email t \<noteq> Some (JStr a)) \<longrightarrow>
        session store_lookupByEmail t r
          = (t, r\<lparr>requests := requests r @ [Lookup (session_email t)]\<rparr>)"
  proof
    assume a: "\<forall>a. session_email t \<noteq> Some (JStr a)"
    from lookup_no_string [OF a, of r] obtain e where
      "store_lookupByEmail (session_email t) r
         = (Inl e, r\<lparr>requests := requests r @ [Lookup (session_email t)]\<rparr>)" by blast
    then show "session store_lookupByEmail t r
          = (t, r\<lparr>requests := requests r @ [Lookup (session_email t)]\<rparr>)"
      by (rule session_throw)
  qed
qed

theorem session_always_looks_up_witness:
  "session store_lookupByEmail
      \<lparr>user = Some (Map.empty(''name'' \<mapsto> Some (JStr ''A''))),
       other = Map.empty(''expires'' \<mapsto> Some (JStr ''2026-01-01''))\<rparr>
      \<lparr>profiles = Map.empty, lookup_up = True, create_up = True, requests = []\<rparr>
   = (\<lparr>user = Some (Map.empty(''name'' \<mapsto> Some (JStr ''A''))),
       other = Map.empty(''expires'' \<mapsto> Some (JStr ''2026-01-01''))\<rparr>,
      \<lparr>profiles = Map.empty, lookup_up = True, create_up = True, requests = [Lookup None]\<rparr>)"
proof -
  let ?t = "\<lparr>user = Some (Map.empty(''name'' \<mapsto> Some (JStr ''A''))),
       other = Map.empty(''expires'' \<mapsto> Some (JStr ''2026-01-01''))\<rparr>"
  let ?r = "\<lparr>profiles = Map.empty, lookup_up = True, create_up = True, requests = []\<rparr>"
  have e: "session_email ?t = None" by (simp add: session_email_def get_prop_def)
  then have h: "\<forall>a. session_email ?t \<noteq> Some (JStr a)" by simp
  from session_always_looks_up [of store_lookupByEmail ?t ?r ?t ?r] h
  have "session store_lookupByEmail ?t ?r
          = (?t, ?r\<lparr>requests := requests ?r @ [Lookup (session_email ?t)]\<rparr>)"
    by blast
  then show ?thesis by (simp add: e)
qed

subsection \<open>The sign-in callback\<close>

text \<open>
  Claim C4. When the lookup finds a profile for the identity's email, \<open>signIn\<close> admits
  the user and makes no create call: the state is the one the lookup left, whatever
  \<open>createUser\<close> is. When the lookup finds none, the only further call is one
  \<open>createUser\<close> with the identity's name, email and image. On the store: for an
  email that has a profile the store receives the lookup alone and every profile
  stays as it is (the user is admitted when the lookup can be answered); for a new
  email the store receives the lookup and one create, and gains exactly the profile
  made from the identity's display name, email and avatar reference.
\<close>

theorem signIn_reconciles:
  "(\<forall>p st1. getUser (u ''email'') st = (Inr (Data (Some p)), st1) \<longrightarrow>
       signIn getUser createUser u st = (Inr True, st1))
   \<and> (\<forall>st1. getUser (u ''email'') st = (Inr (Data None), st1) \<longrightarrow>
       snd (signIn getUser createUser u st)
         = snd (createUser (u ''name'') (u ''email'') (u ''image'') st1))
   \<and> (\<forall>a p. v ''email'' = Some (JStr a) \<and> profiles s a = Some p \<longrightarrow>
       signIn store_lookupByEmail store_createUser v s
         = (Inr (lookup_up s), s\<lparr>requests := requests s @ [Lookup (v ''email'')]\<rparr>))
   \<and> (\<forall>a. v ''email'' = Some (JStr a) \<and> lookup_up s \<and> create_up s \<and> profiles s a = None \<longrightarrow>
       signIn store_lookupByEmail store_createUser v s
         = (Inr True, s\<lparr>requests := requests s @
                       [Lookup (v ''email''), Create (v ''name'') (v ''email'') (v ''image'')],
                    profiles := (profiles s)(a \<mapsto> new_profile (v ''name'') a (v ''image''))\<rparr>))"
proof (intro conjI allI impI)
  fix p st1 assume "getUser (u ''email'') st = (Inr (Data (Some p)), st1)"
  then show "signIn getUser createUser u st = (Inr True, st1)" by (rule signIn_found)
next
  fix st1 assume "getUser (u ''email'') st = (Inr (Data None), st1)"
  then show "snd (signIn getUser createUser u st)
         = snd (createUser (u ''name'') (u ''email'') (u ''image'') st1)"
    by (simp add: signIn_create split: prod.splits sum.splits)
next
  fix a p assume a: "v ''email'' = Some (JStr a) \<and> profiles s a = Some p"
  show "signIn store_lookupByEmail store_createUser v s
         = (Inr (lookup_up s), s\<lparr>requests := requests s @ [Lookup (v ''email'')]\<rparr>)"
  proof (cases "lookup_up s")
    case True
    with a show ?thesis by (simp add: signIn_found [where p = p] lookup_string)
  next
    case False
    then have "store_lookupByEmail (v ''email'') s
      = (Inl StoreUnavailable, s\<lparr>requests := requests s @ [Lookup (v ''email'')]\<rparr>)"
      by (simp add: store_lookupByEmail_def)
    with False show ?thesis by (simp add: signIn_throw signIn_catch_def)
  qed
next
  fix a assume "v ''email'' = Some (JStr a) \<and> lookup_up s \<and> create_up s \<and> profiles s a = None"
  then show "signIn store_lookupByEmail store_createUser v s
         = (Inr True, s\<lparr>requests := requests s @
                       [Lookup (v ''email''), Create (v ''name'') (v ''email'') (v ''image'')],
                    profiles := (profiles s)(a \<mapsto> new_profile (v ''name'') a (v ''image''))\<rparr>)"
    by (simp add: signIn_create lookup_string store_createUser_def)
qed

theorem signIn_reconciles_witness:
  "signIn store_lookupByEmail store_createUser
     (Map.empty(''email'' \<mapsto> JStr ''a@x.com'', ''name'' \<mapsto> JStr ''A'', ''image'' \<mapsto> JStr ''img1''))
     \<lparr>profiles = Map.empty, lookup_up = True, create_up = True, requests = []\<rparr>
   = (Inr True,
      \<lparr>profiles = Map.empty(''a@x.com'' \<mapsto>
          new_profile (Some (JStr ''A'')) ''a@x.com'' (Some (JStr ''img1''))),
       lookup_up = True, create_up = True,
       requests = [Lookup (Some (JStr ''a@x.com'')),
                   Create (Some (JStr ''A'')) (Some (JStr ''a@x.com'')) (Some (JStr ''img1''))]\<rparr>)
   \<and> signIn store_lookupByEmail store_createUser
     (Map.empty(''email'' \<mapsto> JStr ''a@x.com'', ''name'' \<mapsto> JStr ''A2'', ''image'' \<mapsto> JStr ''img1''))
     \<lparr>profiles = Map.empty(''a@x.com'' \<mapsto>
          new_profile (Some (JStr ''A'')) ''a@x.com'' (Some (JStr ''img1''))),
      lookup_up = True, create_up = True, requests = []\<rparr>
   = (Inr True,
      \<lparr>profiles = Map.empty(''a@x.com'' \<mapsto>
          new_profile (Some (JStr ''A'')) ''a@x.com'' (Some (JStr ''img1''))),
       lookup_up = True, create_up = True,
       requests = [Lookup (Some (JStr ''a@x.com''))]\<rparr>)"
proof
  let ?u1 = "Map.empty(''email'' \<mapsto> JStr ''a@x.com'', ''name'' \<mapsto> JStr ''A'', ''image'' \<mapsto> JStr ''img1'')"
  let ?u2 = "Map.empty(''email'' \<mapsto> JStr ''a@x.com'', ''name'' \<mapsto> JStr ''A2'', ''image'' \<mapsto> JStr ''img1'')"
  let ?p = "new_profile (Some (JStr ''A'')) ''a@x.com'' (Some (JStr ''img1''))"
  let ?s0 = "\<lparr>profiles = Map.empty, lookup_up = True, create_up = True, requests = []\<rparr>"
  let ?s1 = "\<lparr>profiles = Map.empty(''a@x.com'' \<mapsto> ?p), lookup_up = True, create_up = True,
              requests = []\<rparr>"
  have new: "?u1 ''email'' = Some (JStr ''a@x.com'') \<and> lookup_up ?s0 \<and> create_up ?s0
               \<and> profiles ?s0 ''a@x.com'' = None"
    by simp
  from signIn_reconciles [where getUser = store_lookupByEmail and createUser = store_createUser
      and u = ?u1 and st = ?s0 and v = ?u1 and s = ?s0] new
  have "signIn store_lookupByEmail store_createUser ?u1 ?s0
         = (Inr True, ?s0\<lparr>requests := requests ?s0 @
                       [Lookup (?u1 ''email''), Create (?u1 ''name'') (?u1 ''email'') (?u1 ''image'')],
                    profiles := (profiles ?s0)(''a@x.com'' \<mapsto> new_profile (?u1 ''name'') ''a@x.com'' (?u1 ''image''))\<rparr>)"
    by blast
  then show "signIn store_lookupByEmail store_createUser ?u1 ?s0
   = (Inr True, \<lparr>profiles = Map.empty(''a@x.com'' \<mapsto> ?p), lookup_up = True, create_up = True,
       requests = [Lookup (Some (JStr ''a@x.com'')),
                   Create (Some (JStr ''A'')) (Some (JStr ''a@x.com'')) (Some (JStr ''img1''))]\<rparr>)"
    by simp
  have old: "?u2 ''email'' = Some (JStr ''a@x.com'') \<and> profiles ?s1 ''a@x.com'' = Some ?p"
    by simp
  from signIn_reconciles [where getUser = store_lookupByEmail and createUser = store_createUser
      and u = ?u2 and st = ?s1 and v = ?u2 and s = ?s1] old
  have "signIn store_lookupByEmail store_createUser ?u2 ?s1
         = (Inr (lookup_up ?s1), ?s1\<lparr>requests := requests ?s1 @ [Lookup (?u2 ''email'')]\<rparr>)"
    by blast
  then show "signIn store_lookupByEmail store_createUser ?u2 ?s1
   = (Inr True, \<lparr>profiles = Map.empty(''a@x.com'' \<mapsto> ?p), lookup_up = True, create_up = True,
       requests = [Lookup (Some (JStr ''a@x.com''))]\<rparr>)"
    by simp
qed

text \<open>
  Claim C5. When the create call made during sign-in fails, \<open>signIn\<close> returns
  \<open>false\<close>, the profiles of the store are the ones it had before, and there is no
  profile for the identity's email.
\<close>

theorem signIn_create_failure_is_atomic:
  assumes "store_lookupByEmail (u ''email'') st = (Inr (Data None), st1)"
    and "store_createUser (u ''name'') (u ''email'') (u ''image'') st1 = (Inl e, st2)"
  shows "signIn store_lookupByEmail store_createUser u st = (Inr False, st2)
       \<and> profiles st2 = profiles st
       \<and> (\<forall>a. u ''email'' = Some (JStr a) \<longrightarrow> profiles st2 a = None)"
proof -
  from assms(1) have st1: "profiles st1 = profiles st"
    by (auto simp: store_lookupByEmail_def Let_def split: if_splits option.splits jsval.splits)
  from assms(1) have none: "\<forall>a. u ''email'' = Some (JStr a) \<longrightarrow> profiles st a = None"
    by (auto simp: store_lookupByEmail_def Let_def split: if_splits option.splits jsval.splits)
  from assms(2) have st2: "profiles st2 = profiles st1"
    by (auto simp: store_createUser_def Let_def split: if_splits option.splits jsval.splits)
  from assms(2) have "signIn_catch e = Inr False"
    by (rule create_throws [THEN signIn_catch_error])
  with assms have "signIn store_lookupByEmail store_createUser u st = (Inr False, st2)"
    by (simp add: signIn_create)
  with st1 st2 none show ?thesis by simp
qed

theorem signIn_create_failure_is_atomic_witness:
  "signIn store_lookupByEmail store_createUser
     (Map.empty(''email'' \<mapsto> JStr ''a@x.com'', ''name'' \<mapsto> JStr ''A'', ''image'' \<mapsto> JStr ''img1''))
     \<lparr>profiles = Map.empty, lookup_up = True, create_up = False, requests = []\<rparr>
   = (Inr False,
      \<lparr>profiles = Map.empty, lookup_up = True, create_up = False,
       requests = [Lookup (Some (JStr ''a@x.com'')),
                   Create (Some (JStr ''A'')) (Some (JStr ''a@x.com'')) (Some (JStr ''img1''))]\<rparr>)"
proof -
  let ?u = "Map.empty(''email'' \<mapsto> JStr ''a@x.com'', ''name'' \<mapsto> JStr ''A'', ''image'' \<mapsto> JStr ''img1'')"
  let ?st = "\<lparr>profiles = Map.empty, lookup_up = True, create_up = False, requests = []\<rparr>"
  let ?st1 = "\<lparr>profiles = Map.empty, lookup_up = True, create_up = False,
       requests = [Lookup (Some (JStr ''a@x.com''))]\<rparr>"
  let ?st2 = "\<lparr>profiles = Map.empty, lookup_up = True, create_up = False,
       requests = [Lookup (Some (JStr ''a@x.com'')),
                   Create (Some (JStr ''A'')) (Some (JStr ''a@x.com'')) (Some (JStr ''img1''))]\<rparr>"
  have h1: "store_lookupByEmail (?u ''email'') ?st = (Inr (Data None), ?st1)"
    by (simp add: store_lookupByEmail_def)
  have h2: "store_createUser (?u ''name'') (?u ''email'') (?u ''image'') ?st1
              = (Inl StoreUnavailable, ?st2)"
    by (simp add: store_createUser_def)
  from signIn_create_failure_is_atomic [OF h1 h2] show ?thesis by blast
qed


text \<open>
  The \<open>catch\<close> is not total either: a store call that rejects with \<open>undefined\<close> makes
  it throw, and \<open>signIn\<close> rejects instead of returning \<open>false\<close>.
\<close>

lemma signIn_rejects_on_thrown_undefined:
  "signIn getUser_rejects_undefined createUser_ok
     (Map.empty(''email'' \<mapsto> JStr ''a@x.com'')) ()
   = (Inl TypeError, ())"
  by (simp add: signIn_def getUser_rejects_undefined_def signIn_catch_def)



end
